theory Spec2Isabelle
  imports Complex_Main "HOL-Library.Sublist"
begin

section \<open>The evaluation harness of the decoder-only transformer (evaluation.py)\<close>

text \<open>
  The harness loads a dataset, takes ten records of its \<^verbatim>\<open>train\<close> split, asks a text
  generator for a continuation of a prefix of each record, cuts the generated text and the
  record to their common length, and hands the two lists to the BLEU and ROUGE scorers.

  The model, the dataset loader, the text generator and the scorers are other modules
  (\<^verbatim>\<open>model\<close>, \<^verbatim>\<open>datasets\<close>, \<^verbatim>\<open>generation\<close>, \<^verbatim>\<open>evaluate\<close>); they are
  parameters of the embedding, collected in the record \<open>env\<close>. Each of them may raise, and
  the generator carries state (it samples), so its calls are threaded through a state of
  type \<open>'g\<close>. Every call to the generator and to a scorer is written to a list of events,
  in the order in which the program makes the calls.
\<close>

subsection \<open>Data\<close>

text \<open>
  A Python \<^verbatim>\<open>str\<close> is a sequence of code points; \<open>'c\<close> is the type of code points, so
  \<open>length\<close> is Python's \<^verbatim>\<open>len\<close>. The concrete runs below use \<open>char\<close> and ASCII text.
\<close>

type_synonym 'c str = "'c list"

text \<open>An exception raised inside another module, named by its class.\<close>

type_synonym exn = string

text \<open>
  What a run of the harness can raise: \<^verbatim>\<open>KeyError\<close> and \<^verbatim>\<open>IndexError\<close> from its own
  subscripts, and whatever a collaborator raises.
\<close>

datatype py_error = KeyError string | IndexError | Raised exn

text \<open>The class \<^verbatim>\<open>ModelConfig\<close> (lines 12 to 22), read from \<^verbatim>\<open>config.json\<close>.\<close>

record ModelConfig =
  CONTEXT_LENGTH :: int
  D_MODEL :: int
  D_FF :: int
  NUM_BLOCKS :: int
  NUM_HEADS :: int
  DROP_OUT :: real
  MODEL_PATH :: string
  DATASET_PATH :: string
  DEVICE :: string

text \<open>
  What \<^verbatim>\<open>load_dataset\<close> returns: a dictionary from split names to ordered sequences of
  rows, a row being a dictionary from column names to text.
\<close>

type_synonym 'c row = "string \<rightharpoonup> 'c str"
type_synonym 'c dataset_dict = "string \<rightharpoonup> 'c row list"

text \<open>
  The calls the harness makes to the generator and to the scorers, each with its arguments
  and with what the call returned or raised.
\<close>

datatype ('c, 's) event =
    is_Generate: Generate (prompt: "'c str") (max_tokens: nat) (temperature: real) (top_k: nat)
      (generated: "exn + 'c str")
  | is_Compute: Compute (metric: string) (predictions: "'c str list") (references: "'c str list")
      (score: "exn + 's")

text \<open>
  The collaborators:
  \<^item> \<open>load_model device path\<close> is lines 68 to 70
    (\<^verbatim>\<open>Model().to(DEVICE)\<close>, \<^verbatim>\<open>load_state_dict(torch.load(MODEL_PATH))\<close>, \<^verbatim>\<open>eval()\<close>),
    whose result no later line uses;
  \<^item> \<open>load_dataset path\<close> is \<^verbatim>\<open>datasets.load_dataset\<close>;
  \<^item> \<open>TextGenerator path\<close> is the constructor \<^verbatim>\<open>TextGenerator(model_path=path)\<close>;
  \<^item> \<open>generate_text g prompt max_tokens temperature top_k\<close> is the method
    \<^verbatim>\<open>generate_text\<close> of the generator in state \<open>g\<close>;
  \<^item> \<open>metric_compute name predictions references\<close> is
    \<^verbatim>\<open>evaluate.load(name).compute(predictions=..., references=...)\<close>.
\<close>

record ('c, 'g, 's) env =
  load_model :: "string \<Rightarrow> string \<Rightarrow> exn + unit"
  load_dataset :: "string \<Rightarrow> exn + 'c dataset_dict"
  TextGenerator :: "string \<Rightarrow> exn + 'g"
  generate_text :: "'g \<Rightarrow> 'c str \<Rightarrow> nat \<Rightarrow> real \<Rightarrow> nat \<Rightarrow> (exn + 'c str) \<times> 'g"
  metric_compute :: "string \<Rightarrow> 'c str list \<Rightarrow> 'c str list \<Rightarrow> exn + 's"

subsection \<open>Operations\<close>

text \<open>
  The slice \<^verbatim>\<open>s[:k]\<close> of Python: a negative \<open>k\<close> counts from the end, and a bound outside
  the sequence is clipped.
\<close>

definition slice_to :: "'a list \<Rightarrow> int \<Rightarrow> 'a list" where
  "slice_to s k = (if 0 \<le> k then take (nat k) s else take (nat (int (length s) + k)) s)"

text \<open>\<^verbatim>\<open>load_data\<close> (lines 24 to 36).\<close>

definition load_data :: "('c, 'g, 's) env \<Rightarrow> string \<Rightarrow> py_error + 'c dataset_dict" where
  "load_data env dataset_path =
     (case load_dataset env dataset_path of
        Inl x \<Rightarrow> Inl (Raised x)
      | Inr dataset \<Rightarrow> Inr dataset)"

text \<open>
  \<^verbatim>\<open>evaluate_texts\<close> (lines 38 to 63): BLEU first, then ROUGE, each on the two lists as
  they are; the result is the dictionary with the keys \<^verbatim>\<open>bleu\<close> and \<^verbatim>\<open>rouge\<close>.
\<close>

definition evaluate_texts ::
  "('c, 'g, 's) env \<Rightarrow> 'c str list \<Rightarrow> 'c str list \<Rightarrow>
     (py_error + (string \<rightharpoonup> 's)) \<times> ('c, 's) event list" where
  "evaluate_texts env generated_texts reference_texts =
     (let bleu = metric_compute env ''bleu'' generated_texts reference_texts;
          ev1 = Compute ''bleu'' generated_texts reference_texts bleu
      in case bleu of
           Inl x \<Rightarrow> (Inl (Raised x), [ev1])
         | Inr bleu_score \<Rightarrow>
             (let rouge = metric_compute env ''rouge'' generated_texts reference_texts;
                  ev2 = Compute ''rouge'' generated_texts reference_texts rouge
              in case rouge of
                   Inl x \<Rightarrow> (Inl (Raised x), [ev1, ev2])
                 | Inr rouge_score \<Rightarrow>
                     (Inr [''bleu'' \<mapsto> bleu_score, ''rouge'' \<mapsto> rouge_score], [ev1, ev2])))"

text \<open>The local \<^verbatim>\<open>test_batch\<close> of \<^verbatim>\<open>main\<close> (line 75).\<close>

definition test_batch :: nat where
  "test_batch = 10"

text \<open>
  The first loop of \<^verbatim>\<open>main\<close> (lines 76 and 77), over the indices \<open>idxs\<close>:
  \<^verbatim>\<open>test_datasets.append(datasets['train'][i]['text'])\<close>. The three subscripts fail with
  \<^verbatim>\<open>KeyError\<close>, \<^verbatim>\<open>IndexError\<close> and \<^verbatim>\<open>KeyError\<close>.
\<close>

fun collect_texts ::
  "'c dataset_dict \<Rightarrow> nat list \<Rightarrow> 'c str list \<Rightarrow> py_error + 'c str list" where
  "collect_texts datasets [] test_datasets = Inr test_datasets"
| "collect_texts datasets (i # idxs) test_datasets =
     (case datasets ''train'' of
        None \<Rightarrow> Inl (KeyError ''train'')
      | Some train \<Rightarrow>
          if length train \<le> i then Inl IndexError
          else (case (train ! i) ''text'' of
                  None \<Rightarrow> Inl (KeyError ''text'')
                | Some t \<Rightarrow> collect_texts datasets idxs (test_datasets @ [t])))"

text \<open>
  The second loop of \<^verbatim>\<open>main\<close> (lines 87 to 95), over the indices \<open>idxs\<close>, without the
  calls to \<^verbatim>\<open>print\<close>. It returns the two lists and the events of its generator calls.
  The literal \<^verbatim>\<open>0.7\<close> is the real number \<open>7 / 10\<close>: the harness only passes it on.
\<close>

fun generate_pairs ::
  "('c, 'g, 's) env \<Rightarrow> ModelConfig \<Rightarrow> 'c str list \<Rightarrow> nat list \<Rightarrow> 'g \<Rightarrow>
     'c str list \<Rightarrow> 'c str list \<Rightarrow>
     (py_error + 'c str list \<times> 'c str list) \<times> ('c, 's) event list" where
  "generate_pairs env cfg test_datasets [] generator generated_texts reference_texts =
     (Inr (generated_texts, reference_texts), [])"
| "generate_pairs env cfg test_datasets (i # idxs) generator generated_texts reference_texts =
     (if length test_datasets \<le> i then (Inl IndexError, [])
      else
        let record = test_datasets ! i;
            prompt = slice_to record (CONTEXT_LENGTH cfg);
            call = generate_text env generator prompt (length record) (7 / 10) 50;
            ev = Generate prompt (length record) (7 / 10) 50 (fst call)
        in case fst call of
             Inl x \<Rightarrow> (Inl (Raised x), [ev])
           | Inr generated_text \<Rightarrow>
               let n = int (min (length generated_text) (length record));
                   rest = generate_pairs env cfg test_datasets idxs (snd call)
                            (generated_texts @ [slice_to generated_text n])
                            (reference_texts @ [slice_to record n])
               in (fst rest, ev # snd rest))"

text \<open>
  \<^verbatim>\<open>main\<close> (lines 65 to 100). Its value here is the dictionary of scores that line 98
  binds and lines 99 and 100 print, together with the events of the whole run.
\<close>

definition main ::
  "('c, 'g, 's) env \<Rightarrow> ModelConfig \<Rightarrow> (py_error + (string \<rightharpoonup> 's)) \<times> ('c, 's) event list" where
  "main env cfg =
     (case load_model env (DEVICE cfg) (MODEL_PATH cfg) of
        Inl x \<Rightarrow> (Inl (Raised x), [])
      | Inr _ \<Rightarrow>
     (case load_data env (DATASET_PATH cfg) of
        Inl e \<Rightarrow> (Inl e, [])
      | Inr datasets \<Rightarrow>
     (case collect_texts datasets [0..<test_batch] [] of
        Inl e \<Rightarrow> (Inl e, [])
      | Inr test_datasets \<Rightarrow>
     (case TextGenerator env (MODEL_PATH cfg) of
        Inl x \<Rightarrow> (Inl (Raised x), [])
      | Inr generator \<Rightarrow>
     (case generate_pairs env cfg test_datasets [0..<test_batch] generator [] [] of
        (Inl e, evs) \<Rightarrow> (Inl e, evs)
      | (Inr (generated_texts, reference_texts), evs) \<Rightarrow>
          (let scores = evaluate_texts env generated_texts reference_texts
           in (fst scores, evs @ snd scores)))))))"

subsection \<open>Concrete collaborators and runs\<close>

text \<open>
  Collaborators, configurations and datasets on which the operations are evaluated below.
  The scorer counts the positions at which prediction and reference are equal; it stands
  for both metrics.
\<close>

definition exact_matches :: "string \<Rightarrow> string list \<Rightarrow> string list \<Rightarrow> exn + int" where
  "exact_matches name ps rs =
     Inr (sum_list (map (\<lambda>(p, r). if p = r then 1 else 0) (zip ps rs)))"

text \<open>A dataset whose train split has one row per text, with the single column \<^verbatim>\<open>text\<close>.\<close>

definition train_rows :: "string list \<Rightarrow> char row list" where
  "train_rows texts = map (\<lambda>t. [''text'' \<mapsto> t]) texts"

definition dataset_of :: "string list \<Rightarrow> char dataset_dict" where
  "dataset_of texts = [''train'' \<mapsto> train_rows texts]"

text \<open>
  An environment in which nothing raises during set-up, the dataset is \<open>dataset_of texts\<close>,
  the generator's state counts its calls and its output is \<open>gen\<close> of the state, the prompt
  and \<open>max_tokens\<close>.
\<close>

definition table_env ::
  "string list \<Rightarrow> (nat \<Rightarrow> string \<Rightarrow> nat \<Rightarrow> exn + string) \<Rightarrow> (char, nat, int) env" where
  "table_env texts gen =
     \<lparr> load_model = (\<lambda>device path. Inr ()),
       load_dataset = (\<lambda>path. Inr (dataset_of texts)),
       TextGenerator = (\<lambda>path. Inr 0),
       generate_text = (\<lambda>g p m t k. (gen g p m, Suc g)),
       metric_compute = exact_matches \<rparr>"

text \<open>
  Three configurations: one with the context length 16 that the comment of line 14 calls
  the default, one that differs from it in every field, and one with a negative context
  length.
\<close>

definition config16 :: ModelConfig where
  "config16 = \<lparr> CONTEXT_LENGTH = 16, D_MODEL = 64, D_FF = 256, NUM_BLOCKS = 8, NUM_HEADS = 4,
      DROP_OUT = 1 / 10, MODEL_PATH = ''model.pt'', DATASET_PATH = ''vesteinn/babylm'',
      DEVICE = ''cpu'' \<rparr>"

definition config4 :: ModelConfig where
  "config4 = \<lparr> CONTEXT_LENGTH = 4, D_MODEL = 32, D_FF = 128, NUM_BLOCKS = 2, NUM_HEADS = 2,
      DROP_OUT = 1 / 5, MODEL_PATH = ''small.pt'', DATASET_PATH = ''tiny'',
      DEVICE = ''cuda'' \<rparr>"

definition config_neg :: ModelConfig where
  "config_neg = config4\<lparr>CONTEXT_LENGTH := - 1\<rparr>"

text \<open>
  The worked example of the specification: every record is the reference text
  \<^verbatim>\<open>the quick brown fox jumps\<close> and the generator always produces \<^verbatim>\<open>the quick brown\<close>.
\<close>

definition fox_texts :: "string list" where
  "fox_texts = replicate 10 ''the quick brown fox jumps''"

definition fox_env :: "(char, nat, int) env" where
  "fox_env = table_env fox_texts (\<lambda>g p m. Inr ''the quick brown'')"

text \<open>
  Ten records of different lengths and a generator that returns its prompt followed by
  two exclamation marks, so that some generated texts are longer than their record and
  some are shorter; and the same generator on a dataset of three records only.
\<close>

definition demo_texts :: "string list" where
  "demo_texts = [''once upon'', ''a time'', ''there'', ''was'', ''a'', ''small'', ''model'',
     ''that'', ''wrote'', ''text'']"

definition demo_env :: "(char, nat, int) env" where
  "demo_env = table_env demo_texts (\<lambda>g p m. Inr (p @ ''!!''))"

definition short_env :: "(char, nat, int) env" where
  "short_env = table_env (take 3 demo_texts) (\<lambda>g p m. Inr (p @ ''!!''))"

text \<open>
  A word-level tokenizer: the words of a text between its spaces. The tokenizer of the
  generator is part of the module \<^verbatim>\<open>generation\<close>; this one is an example of a tokenizer
  whose tokens span several characters.
\<close>

fun split_spaces :: "string \<Rightarrow> string \<Rightarrow> string list" where
  "split_spaces cur [] = (if cur = [] then [] else [cur])"
| "split_spaces cur (c # cs) =
     (if c = CHR '' '' then (if cur = [] then split_spaces [] cs else cur # split_spaces [] cs)
      else split_spaces (cur @ [c]) cs)"

definition word_tokens :: "string \<Rightarrow> string list" where
  "word_tokens s = split_spaces [] s"

section \<open>Properties of the operations\<close>

subsection \<open>The two loops\<close>

text \<open>
  The first loop succeeds exactly when every index is inside the train split and every row
  it reads has a \<^verbatim>\<open>text\<close> column; its result is then the list of these texts. The second
  loop emits one event for each generator call it makes, with the arguments of line 89.
\<close>

lemma range_test_batch: "[0..<test_batch] = [0, 1, 2, 3, 4, 5, 6, 7, 8, 9]"
  unfolding test_batch_def by (simp add: upt_conv_Cons)

lemma slice_to_int: "slice_to s (int n) = take n s"
  by (simp add: slice_to_def)

lemma collect_texts_Inr_iff:
  assumes "datasets ''train'' = Some train"
  shows "collect_texts datasets idxs acc = Inr out \<longleftrightarrow>
     (\<forall>i\<in>set idxs. i < length train \<and> (\<exists>t. (train ! i) ''text'' = Some t)) \<and>
     out = acc @ map (\<lambda>i. the ((train ! i) ''text'')) idxs"
  using assms by (induction idxs arbitrary: acc) (auto split: option.splits)

lemma collect_texts_no_train:
  assumes "datasets ''train'' = None" and "idxs \<noteq> []"
  shows "collect_texts datasets idxs acc = Inl (KeyError ''train'')"
  using assms by (cases idxs) auto

lemma collect_texts_IndexError:
  assumes "collect_texts datasets idxs acc = Inl IndexError"
  shows "\<exists>train. datasets ''train'' = Some train \<and> (\<exists>i\<in>set idxs. length train \<le> i)"
  using assms by (induction idxs arbitrary: acc) (auto split: option.splits if_splits)

lemma collect_texts_short:
  assumes "datasets ''train'' = Some train"
    and "\<forall>i\<in>set idxs. i < length train \<longrightarrow> (train ! i) ''text'' \<noteq> None"
    and "\<exists>i\<in>set idxs. length train \<le> i"
  shows "collect_texts datasets idxs acc = Inl IndexError"
  using assms by (induction idxs arbitrary: acc) (auto split: option.splits)

lemma generate_pairs_events:
  assumes "generate_pairs env cfg td idxs g gs rs = (res, evs)"
  shows "length evs \<le> length idxs \<and>
     (\<forall>k<length evs. idxs ! k < length td \<and>
        (\<exists>out. evs ! k = Generate (slice_to (td ! (idxs ! k)) (CONTEXT_LENGTH cfg))
                   (length (td ! (idxs ! k))) (7 / 10) 50 out))"
  using assms
proof (induction idxs arbitrary: g gs rs res evs)
  case Nil
  then show ?case by simp
next
  case (Cons i idxs)
  show ?case
  proof (cases "length td \<le> i")
    case True
    with Cons.prems show ?thesis by simp
  next
    case False
    let ?r = "td ! i"
    let ?call = "generate_text env g (slice_to ?r (CONTEXT_LENGTH cfg)) (length ?r) (7 / 10) 50"
    let ?ev = "Generate (slice_to ?r (CONTEXT_LENGTH cfg)) (length ?r) (7 / 10) 50 (fst ?call)"
    show ?thesis
    proof (cases "fst ?call")
      case (Inl x)
      with False Cons.prems have "evs = [?ev]" by (simp add: Let_def)
      with False show ?thesis by simp
    next
      case (Inr out)
      let ?n = "int (min (length out) (length ?r))"
      obtain res' evs' where rest:
        "generate_pairs env cfg td idxs (snd ?call) (gs @ [slice_to out ?n]) (rs @ [slice_to ?r ?n])
           = (res', evs')"
        by (cases "generate_pairs env cfg td idxs (snd ?call) (gs @ [slice_to out ?n])
                     (rs @ [slice_to ?r ?n])") 
      with False Inr Cons.prems have evs: "evs = ?ev # evs'" by (simp add: Let_def)
      from Cons.IH [OF rest] have ih: "length evs' \<le> length idxs"
        "\<And>k. k < length evs' \<Longrightarrow> idxs ! k < length td \<and>
          (\<exists>out. evs' ! k = Generate (slice_to (td ! (idxs ! k)) (CONTEXT_LENGTH cfg))
                   (length (td ! (idxs ! k))) (7 / 10) 50 out)"
        by auto
      show ?thesis
      proof (intro conjI allI impI)
        show "length evs \<le> length (i # idxs)" using evs ih(1) by simp
      next
        fix k assume "k < length evs"
        then show "(i # idxs) ! k < length td" using evs ih(2) False by (cases k) auto
      next
        fix k assume "k < length evs"
        then show "\<exists>out. evs ! k = Generate (slice_to (td ! ((i # idxs) ! k)) (CONTEXT_LENGTH cfg))
                   (length (td ! ((i # idxs) ! k))) (7 / 10) 50 out"
          using evs ih(2) by (cases k) auto
      qed
    qed
  qed
qed

lemma generate_pairs_Inl:
  assumes "generate_pairs env cfg td idxs g gs rs = (Inl e, evs)"
  shows "e = IndexError \<and> (\<exists>i\<in>set idxs. length td \<le> i) \<or>
         (\<exists>x. e = Raised x \<and> evs \<noteq> [] \<and> generated (last evs) = Inl x)"
  using assms
proof (induction idxs arbitrary: g gs rs evs)
  case Nil
  then show ?case by simp
next
  case (Cons i idxs)
  show ?case
  proof (cases "length td \<le> i")
    case True
    with Cons.prems show ?thesis by simp
  next
    case False
    let ?r = "td ! i"
    let ?call = "generate_text env g (slice_to ?r (CONTEXT_LENGTH cfg)) (length ?r) (7 / 10) 50"
    show ?thesis
    proof (cases "fst ?call")
      case (Inl x)
      with False Cons.prems show ?thesis by (auto simp: Let_def)
    next
      case (Inr out)
      let ?n = "int (min (length out) (length ?r))"
      obtain res' evs' where rest:
        "generate_pairs env cfg td idxs (snd ?call) (gs @ [slice_to out ?n]) (rs @ [slice_to ?r ?n])
           = (res', evs')"
        by (cases "generate_pairs env cfg td idxs (snd ?call) (gs @ [slice_to out ?n])
                     (rs @ [slice_to ?r ?n])") 
      with False Inr Cons.prems have "res' = Inl e" and evs: "evs = Generate (slice_to ?r (CONTEXT_LENGTH cfg)) (length ?r) (7 / 10) 50 (Inr out) # evs'"
        by (simp_all add: Let_def)
      with Cons.IH [of "snd ?call" "gs @ [slice_to out ?n]" "rs @ [slice_to ?r ?n]" evs'] rest
      show ?thesis by auto
    qed
  qed
qed

lemma generate_pairs_Inr:
  assumes "generate_pairs env cfg td idxs g gs rs = (Inr (gs', rs'), evs)"
  shows "\<exists>outs sts. length outs = length idxs \<and> length sts = Suc (length idxs) \<and> sts ! 0 = g \<and>
     (\<forall>i\<in>set idxs. i < length td) \<and>
     (\<forall>k<length idxs.
        generate_text env (sts ! k) (slice_to (td ! (idxs ! k)) (CONTEXT_LENGTH cfg))
          (length (td ! (idxs ! k))) (7 / 10) 50 = (Inr (outs ! k), sts ! Suc k)) \<and>
     evs = map (\<lambda>(i, out). Generate (slice_to (td ! i) (CONTEXT_LENGTH cfg))
                  (length (td ! i)) (7 / 10) 50 (Inr out)) (zip idxs outs) \<and>
     gs' = gs @ map (\<lambda>(i, out). take (min (length out) (length (td ! i))) out) (zip idxs outs) \<and>
     rs' = rs @ map (\<lambda>(i, out). take (min (length out) (length (td ! i))) (td ! i)) (zip idxs outs)"
  using assms
proof (induction idxs arbitrary: g gs rs evs)
  case Nil
  then show ?case by (auto intro: exI [of _ "[g]"])
next
  case (Cons i idxs)
  from Cons.prems have inb: "i < length td" by (auto split: if_splits)
  let ?r = "td ! i"
  let ?call = "generate_text env g (slice_to ?r (CONTEXT_LENGTH cfg)) (length ?r) (7 / 10) 50"
  from Cons.prems inb obtain out where out: "fst ?call = Inr out"
    by (cases "fst ?call") (auto simp: Let_def)
  let ?n = "int (min (length out) (length ?r))"
  obtain res' evs' where rest:
    "generate_pairs env cfg td idxs (snd ?call) (gs @ [slice_to out ?n]) (rs @ [slice_to ?r ?n])
       = (res', evs')"
    by (cases "generate_pairs env cfg td idxs (snd ?call) (gs @ [slice_to out ?n])
                 (rs @ [slice_to ?r ?n])") 
  with Cons.prems inb out have res': "res' = Inr (gs', rs')"
    and evs: "evs = Generate (slice_to ?r (CONTEXT_LENGTH cfg)) (length ?r) (7 / 10) 50 (Inr out) # evs'"
    by (simp_all add: Let_def)
  from Cons.IH [OF rest [unfolded res']] obtain outs sts where ih:
    "length outs = length idxs" "length sts = Suc (length idxs)" "sts ! 0 = snd ?call"
    "\<forall>i\<in>set idxs. i < length td"
    "\<forall>k<length idxs.
        generate_text env (sts ! k) (slice_to (td ! (idxs ! k)) (CONTEXT_LENGTH cfg))
          (length (td ! (idxs ! k))) (7 / 10) 50 = (Inr (outs ! k), sts ! Suc k)"
    "evs' = map (\<lambda>(i, out). Generate (slice_to (td ! i) (CONTEXT_LENGTH cfg))
                  (length (td ! i)) (7 / 10) 50 (Inr out)) (zip idxs outs)"
    "gs' = (gs @ [slice_to out ?n]) @
       map (\<lambda>(i, out). take (min (length out) (length (td ! i))) out) (zip idxs outs)"
    "rs' = (rs @ [slice_to ?r ?n]) @
       map (\<lambda>(i, out). take (min (length out) (length (td ! i))) (td ! i)) (zip idxs outs)"
    by blast
  have call: "?call = (Inr out, sts ! 0)"
    using out ih(3) by (simp add: prod_eq_iff)
  have chain: "\<forall>k<length (i # idxs).
        generate_text env ((g # sts) ! k) (slice_to (td ! ((i # idxs) ! k)) (CONTEXT_LENGTH cfg))
          (length (td ! ((i # idxs) ! k))) (7 / 10) 50 = (Inr ((out # outs) ! k), (g # sts) ! Suc k)"
  proof (intro allI impI)
    fix k assume "k < length (i # idxs)"
    then show "generate_text env ((g # sts) ! k) (slice_to (td ! ((i # idxs) ! k)) (CONTEXT_LENGTH cfg))
          (length (td ! ((i # idxs) ! k))) (7 / 10) 50 = (Inr ((out # outs) ! k), (g # sts) ! Suc k)"
      using call ih(5) by (cases k) auto
  qed
  show ?case
    apply (rule exI [of _ "out # outs"])
    apply (rule exI [of _ "g # sts"])
    using ih(1,2,4,6,7,8) inb evs chain
    apply (simp add: slice_to_int del: nth_Cons_Suc)
    done
qed

subsection \<open>Scoring and the whole run\<close>

lemma Compute_not_Generate: "is_Compute e \<Longrightarrow> \<not> is_Generate e"
  by (cases e) simp_all

lemma evaluate_texts_events:
  assumes "e \<in> set (snd (evaluate_texts env P R))"
  shows "is_Compute e \<and> predictions e = P \<and> references e = R \<and>
     (metric e = ''bleu'' \<or> metric e = ''rouge'') \<and> score e = metric_compute env (metric e) P R"
  using assms by (auto simp: evaluate_texts_def Let_def split: sum.splits)

lemma evaluate_texts_Inr:
  "evaluate_texts env P R = (Inr report, evs) \<longleftrightarrow>
     (\<exists>b r. metric_compute env ''bleu'' P R = Inr b \<and> metric_compute env ''rouge'' P R = Inr r \<and>
        report = [''bleu'' \<mapsto> b, ''rouge'' \<mapsto> r] \<and>
        evs = [Compute ''bleu'' P R (Inr b), Compute ''rouge'' P R (Inr r)])"
  by (auto simp: evaluate_texts_def Let_def split: sum.splits)

lemma evaluate_texts_Inl:
  assumes "evaluate_texts env P R = (Inl e, evs)"
  shows "(\<exists>x. e = Raised x \<and> metric_compute env ''bleu'' P R = Inl x \<and>
            evs = [Compute ''bleu'' P R (Inl x)]) \<or>
         (\<exists>x b. e = Raised x \<and> metric_compute env ''bleu'' P R = Inr b \<and>
            metric_compute env ''rouge'' P R = Inl x \<and>
            evs = [Compute ''bleu'' P R (Inr b), Compute ''rouge'' P R (Inl x)])"
  using assms by (auto simp: evaluate_texts_def Let_def split: sum.splits)

lemma main_cases:
  assumes "main env cfg = (res, evs)"
  shows "(evs = [] \<and> (\<exists>e. res = Inl e)) \<or>
     (\<exists>ds td g0. load_model env (DEVICE cfg) (MODEL_PATH cfg) = Inr () \<and>
        load_dataset env (DATASET_PATH cfg) = Inr ds \<and>
        collect_texts ds [0..<test_batch] [] = Inr td \<and>
        TextGenerator env (MODEL_PATH cfg) = Inr g0 \<and>
        ((\<exists>e. generate_pairs env cfg td [0..<test_batch] g0 [] [] = (Inl e, evs) \<and> res = Inl e) \<or>
         (\<exists>gs rs gevs. generate_pairs env cfg td [0..<test_batch] g0 [] [] = (Inr (gs, rs), gevs) \<and>
            res = fst (evaluate_texts env gs rs) \<and> evs = gevs @ snd (evaluate_texts env gs rs))))"
  using assms
  by (auto simp: main_def load_data_def Let_def split: sum.splits prod.splits)

lemma collect_texts_batch:
  assumes "collect_texts ds [0..<test_batch] [] = Inr td"
  shows "\<exists>train. ds ''train'' = Some train \<and> 10 \<le> length train \<and> length td = 10 \<and>
     (\<forall>i<10. (train ! i) ''text'' = Some (td ! i))"
proof (cases "ds ''train''")
  case None
  then have "collect_texts ds [0..<test_batch] [] = Inl (KeyError ''train'')"
    by (intro collect_texts_no_train) (simp_all add: test_batch_def)
  with assms show ?thesis by simp
next
  case (Some train)
  from assms collect_texts_Inr_iff [where datasets = ds and train = train and acc = "[]"
      and out = td and idxs = "[0..<test_batch]", OF Some]
  have a: "\<forall>i<10. i < length train \<and> (\<exists>t. (train ! i) ''text'' = Some t)"
    and td: "td = map (\<lambda>i. the ((train ! i) ''text'')) [0..<10]"
    by (auto simp: test_batch_def)
  from a have "(9::nat) < 10 \<longrightarrow> 9 < length train" by blast
  then have "10 \<le> length train" by simp
  moreover have "length td = 10" using td by simp
  moreover have "\<forall>i<10. (train ! i) ''text'' = Some (td ! i)"
    using a td by auto
  ultimately show ?thesis using Some by blast
qed

lemma generate_pairs_batch:
  assumes "generate_pairs env cfg td [0..<test_batch] g0 [] [] = (Inr (gs, rs), gevs)"
    and "length td = 10"
  shows "\<exists>outs sts. length outs = 10 \<and> length sts = 11 \<and> sts ! 0 = g0 \<and>
     length gevs = 10 \<and> length gs = 10 \<and> length rs = 10 \<and>
     (\<forall>i<10.
        generate_text env (sts ! i) (slice_to (td ! i) (CONTEXT_LENGTH cfg)) (length (td ! i))
          (7 / 10) 50 = (Inr (outs ! i), sts ! Suc i) \<and>
        gevs ! i = Generate (slice_to (td ! i) (CONTEXT_LENGTH cfg)) (length (td ! i))
          (7 / 10) 50 (Inr (outs ! i)) \<and>
        gs ! i = take (min (length (outs ! i)) (length (td ! i))) (outs ! i) \<and>
        rs ! i = take (min (length (outs ! i)) (length (td ! i))) (td ! i))"
proof -
  from generate_pairs_Inr [OF assms(1)] obtain outs sts where h:
    "length outs = 10" "length sts = 11" "sts ! 0 = g0"
    "\<forall>k<10. generate_text env (sts ! k) (slice_to (td ! k) (CONTEXT_LENGTH cfg))
          (length (td ! k)) (7 / 10) 50 = (Inr (outs ! k), sts ! Suc k)"
    "gevs = map (\<lambda>(i, out). Generate (slice_to (td ! i) (CONTEXT_LENGTH cfg))
                  (length (td ! i)) (7 / 10) 50 (Inr out)) (zip [0..<10] outs)"
    "gs = map (\<lambda>(i, out). take (min (length out) (length (td ! i))) out) (zip [0..<10] outs)"
    "rs = map (\<lambda>(i, out). take (min (length out) (length (td ! i))) (td ! i)) (zip [0..<10] outs)"
    by (auto simp: test_batch_def)
  have "length gevs = 10" "length gs = 10" "length rs = 10"
    using h(1,5,6,7) by simp_all
  moreover have "\<forall>i<10. gevs ! i = Generate (slice_to (td ! i) (CONTEXT_LENGTH cfg))
       (length (td ! i)) (7 / 10) 50 (Inr (outs ! i))"
    using h(1,5) by simp
  moreover have "\<forall>i<10. gs ! i = take (min (length (outs ! i)) (length (td ! i))) (outs ! i)"
    using h(1,6) by simp
  moreover have "\<forall>i<10. rs ! i = take (min (length (outs ! i)) (length (td ! i))) (td ! i)"
    using h(1,7) by simp
  ultimately show ?thesis using h(1,2,3,4) by blast
qed

text \<open>A run whose events contain a call to a scorer.\<close>

lemma main_scoring:
  assumes "main env cfg = (res, evs)" and "e \<in> set evs" and "is_Compute e"
  shows "\<exists>ds train g0 outs sts P R.
     load_dataset env (DATASET_PATH cfg) = Inr ds \<and> ds ''train'' = Some train \<and>
     10 \<le> length train \<and> TextGenerator env (MODEL_PATH cfg) = Inr g0 \<and>
     length outs = 10 \<and> length sts = 11 \<and> sts ! 0 = g0 \<and> length P = 10 \<and> length R = 10 \<and>
     predictions e = P \<and> references e = R \<and>
     (\<forall>i<10. \<exists>rec. (train ! i) ''text'' = Some rec \<and>
        generate_text env (sts ! i) (slice_to rec (CONTEXT_LENGTH cfg)) (length rec) (7 / 10) 50
          = (Inr (outs ! i), sts ! Suc i) \<and>
        evs ! i = Generate (slice_to rec (CONTEXT_LENGTH cfg)) (length rec) (7 / 10) 50
                     (Inr (outs ! i)) \<and>
        P ! i = take (min (length (outs ! i)) (length rec)) (outs ! i) \<and>
        R ! i = take (min (length (outs ! i)) (length rec)) rec) \<and>
     evaluate_texts env P R = (res, drop 10 evs)"
proof -
  from assms(2) have "evs \<noteq> []" by auto
  with main_cases [OF assms(1)] obtain ds td g0 where
    ds: "load_dataset env (DATASET_PATH cfg) = Inr ds"
    and td: "collect_texts ds [0..<test_batch] [] = Inr td"
    and g0: "TextGenerator env (MODEL_PATH cfg) = Inr g0"
    and alt: "(\<exists>e. generate_pairs env cfg td [0..<test_batch] g0 [] [] = (Inl e, evs) \<and> res = Inl e) \<or>
         (\<exists>gs rs gevs. generate_pairs env cfg td [0..<test_batch] g0 [] [] = (Inr (gs, rs), gevs) \<and>
            res = fst (evaluate_texts env gs rs) \<and> evs = gevs @ snd (evaluate_texts env gs rs))"
    by blast
  from collect_texts_batch [OF td] obtain train where
    train: "ds ''train'' = Some train" "10 \<le> length train" "length td = 10"
      "\<forall>i<10. (train ! i) ''text'' = Some (td ! i)"
    by blast
  have no: "\<not> (\<exists>e. generate_pairs env cfg td [0..<test_batch] g0 [] [] = (Inl e, evs))"
  proof
    assume "\<exists>e. generate_pairs env cfg td [0..<test_batch] g0 [] [] = (Inl e, evs)"
    then obtain e' where "generate_pairs env cfg td [0..<test_batch] g0 [] [] = (Inl e', evs)" ..
    from generate_pairs_events [OF this]
    have "\<forall>k<length evs. is_Generate (evs ! k)" by auto
    with assms(2,3) show False
      by (auto simp: in_set_conv_nth dest: Compute_not_Generate)
  qed
  with alt obtain gs rs gevs where
    gp: "generate_pairs env cfg td [0..<test_batch] g0 [] [] = (Inr (gs, rs), gevs)"
    and res: "res = fst (evaluate_texts env gs rs)"
    and evs: "evs = gevs @ snd (evaluate_texts env gs rs)"
    by blast
  from generate_pairs_batch [OF gp train(3)] obtain outs sts where h:
    "length outs = 10" "length sts = 11" "sts ! 0 = g0"
    "length gevs = 10" "length gs = 10" "length rs = 10"
    "\<forall>i<10.
        generate_text env (sts ! i) (slice_to (td ! i) (CONTEXT_LENGTH cfg)) (length (td ! i))
          (7 / 10) 50 = (Inr (outs ! i), sts ! Suc i) \<and>
        gevs ! i = Generate (slice_to (td ! i) (CONTEXT_LENGTH cfg)) (length (td ! i))
          (7 / 10) 50 (Inr (outs ! i)) \<and>
        gs ! i = take (min (length (outs ! i)) (length (td ! i))) (outs ! i) \<and>
        rs ! i = take (min (length (outs ! i)) (length (td ! i))) (td ! i)"
    by blast
  have "\<forall>k<length gevs. is_Generate (gevs ! k)" using h(4,7) by simp
  then have "e \<notin> set gevs" using assms(3)
    by (auto simp: in_set_conv_nth dest: Compute_not_Generate)
  with assms(2) evs have "e \<in> set (snd (evaluate_texts env gs rs))" by simp
  from evaluate_texts_events [OF this] have e: "predictions e = gs" "references e = rs" by simp_all
  have ev: "evaluate_texts env gs rs = (res, drop 10 evs)"
    using res evs h(4) by (simp add: prod_eq_iff)
  have "\<forall>i<10. \<exists>rec. (train ! i) ''text'' = Some rec \<and>
        generate_text env (sts ! i) (slice_to rec (CONTEXT_LENGTH cfg)) (length rec) (7 / 10) 50
          = (Inr (outs ! i), sts ! Suc i) \<and>
        evs ! i = Generate (slice_to rec (CONTEXT_LENGTH cfg)) (length rec) (7 / 10) 50
                     (Inr (outs ! i)) \<and>
        gs ! i = take (min (length (outs ! i)) (length rec)) (outs ! i) \<and>
        rs ! i = take (min (length (outs ! i)) (length rec)) rec"
  proof (intro allI impI)
    fix i :: nat assume i: "i < 10"
    have "evs ! i = gevs ! i" using i h(4) evs by (simp add: nth_append)
    with i h(7) train(4) show "\<exists>rec. (train ! i) ''text'' = Some rec \<and>
        generate_text env (sts ! i) (slice_to rec (CONTEXT_LENGTH cfg)) (length rec) (7 / 10) 50
          = (Inr (outs ! i), sts ! Suc i) \<and>
        evs ! i = Generate (slice_to rec (CONTEXT_LENGTH cfg)) (length rec) (7 / 10) 50
                     (Inr (outs ! i)) \<and>
        gs ! i = take (min (length (outs ! i)) (length rec)) (outs ! i) \<and>
        rs ! i = take (min (length (outs ! i)) (length rec)) rec"
      by (intro exI [of _ "td ! i"]) simp
  qed
  with ds train(1,2) g0 h(1,2,3,5,6) e ev show ?thesis by blast
qed

lemma main_generate:
  assumes "main env cfg = (res, evs)" and "k < length evs" and "is_Generate (evs ! k)"
  shows "\<exists>ds train r out. load_dataset env (DATASET_PATH cfg) = Inr ds \<and>
     ds ''train'' = Some train \<and> 10 \<le> length train \<and> k < 10 \<and> (train ! k) ''text'' = Some r \<and>
     evs ! k = Generate (slice_to r (CONTEXT_LENGTH cfg)) (length r) (7 / 10) 50 out"
proof -
  from assms(2) have "evs \<noteq> []" by auto
  with main_cases [OF assms(1)] obtain ds td g0 where
    ds: "load_dataset env (DATASET_PATH cfg) = Inr ds"
    and td: "collect_texts ds [0..<test_batch] [] = Inr td"
    and alt: "(\<exists>e. generate_pairs env cfg td [0..<test_batch] g0 [] [] = (Inl e, evs) \<and> res = Inl e) \<or>
         (\<exists>gs rs gevs. generate_pairs env cfg td [0..<test_batch] g0 [] [] = (Inr (gs, rs), gevs) \<and>
            res = fst (evaluate_texts env gs rs) \<and> evs = gevs @ snd (evaluate_texts env gs rs))"
    by blast
  from collect_texts_batch [OF td] obtain train where
    train: "ds ''train'' = Some train" "10 \<le> length train" "length td = 10"
      "\<forall>i<10. (train ! i) ''text'' = Some (td ! i)"
    by blast
  from alt obtain r' gevs where
    gp: "generate_pairs env cfg td [0..<test_batch] g0 [] [] = (r', gevs)"
    and k: "k < length gevs" and ek: "evs ! k = gevs ! k"
  proof
    assume "\<exists>e. generate_pairs env cfg td [0..<test_batch] g0 [] [] = (Inl e, evs) \<and> res = Inl e"
    with that assms(2) show thesis by blast
  next
    assume "\<exists>gs rs gevs. generate_pairs env cfg td [0..<test_batch] g0 [] [] = (Inr (gs, rs), gevs) \<and>
            res = fst (evaluate_texts env gs rs) \<and> evs = gevs @ snd (evaluate_texts env gs rs)"
    then obtain gs rs gevs where
      gp: "generate_pairs env cfg td [0..<test_batch] g0 [] [] = (Inr (gs, rs), gevs)"
      and evs: "evs = gevs @ snd (evaluate_texts env gs rs)"
      by blast
    have "k < length gevs"
    proof (rule ccontr)
      assume "\<not> k < length gevs"
      with assms(2) evs have "evs ! k \<in> set (snd (evaluate_texts env gs rs))"
        by (simp add: nth_append)
      from evaluate_texts_events [OF this] assms(3) show False
        by (auto dest: Compute_not_Generate)
    qed
    with that [OF gp] evs show thesis by (simp add: nth_append)
  qed
  from generate_pairs_events [OF gp] have le: "length gevs \<le> 10"
    by (simp add: test_batch_def)
  with k have k10: "k < 10" by simp
  from generate_pairs_events [OF gp] k have "[0..<test_batch] ! k < length td \<and>
       (\<exists>out. gevs ! k = Generate (slice_to (td ! ([0..<test_batch] ! k)) (CONTEXT_LENGTH cfg))
                   (length (td ! ([0..<test_batch] ! k))) (7 / 10) 50 out)"
    by blast
  with k10 have
    "\<exists>out. gevs ! k = Generate (slice_to (td ! k) (CONTEXT_LENGTH cfg)) (length (td ! k))
       (7 / 10) 50 out"
    by (simp add: test_batch_def)
  with ek train ds k10 show ?thesis by auto
qed

lemma main_IndexError:
  assumes "fst (main env cfg) = Inl IndexError"
  shows "\<exists>ds train. load_dataset env (DATASET_PATH cfg) = Inr ds \<and> ds ''train'' = Some train \<and>
     length train < 10"
proof -
  obtain evs where m: "main env cfg = (Inl IndexError, evs)"
    using assms by (cases "main env cfg") simp
  have ev: "fst (evaluate_texts env gs rs) \<noteq> Inl IndexError" for gs rs
    by (auto simp: evaluate_texts_def Let_def split: sum.splits)
  from m ev obtain ds where ds: "load_dataset env (DATASET_PATH cfg) = Inr ds"
    and alt: "collect_texts ds [0..<test_batch] [] = Inl IndexError \<or>
      (\<exists>td g0 evs. collect_texts ds [0..<test_batch] [] = Inr td \<and>
         generate_pairs env cfg td [0..<test_batch] g0 [] [] = (Inl IndexError, evs))"
    by (auto simp: main_def load_data_def Let_def split: sum.splits prod.splits)
  from alt show ?thesis
  proof
    assume "collect_texts ds [0..<test_batch] [] = Inl IndexError"
    from collect_texts_IndexError [OF this] ds show ?thesis
      by (auto simp: test_batch_def)
  next
    assume "\<exists>td g0 evs. collect_texts ds [0..<test_batch] [] = Inr td \<and>
         generate_pairs env cfg td [0..<test_batch] g0 [] [] = (Inl IndexError, evs)"
    then obtain td g0 evs where td: "collect_texts ds [0..<test_batch] [] = Inr td"
      and gp: "generate_pairs env cfg td [0..<test_batch] g0 [] [] = (Inl IndexError, evs)"
      by blast
    from collect_texts_batch [OF td] have "length td = 10" by blast
    with generate_pairs_Inl [OF gp] show ?thesis by (auto simp: test_batch_def)
  qed
qed

lemma main_Inr:
  assumes "main env cfg = (Inr report, evs)"
  shows "\<exists>P R b r. evaluate_texts env P R = (Inr report, drop 10 evs) \<and>
     drop 10 evs = [Compute ''bleu'' P R (Inr b), Compute ''rouge'' P R (Inr r)] \<and>
     report = [''bleu'' \<mapsto> b, ''rouge'' \<mapsto> r] \<and> evs ! 10 \<in> set evs \<and> 10 < length evs"
proof -
  from main_cases [OF assms] obtain gs rs gevs td g0 ds where
    td: "collect_texts ds [0..<test_batch] [] = Inr td"
    and gp: "generate_pairs env cfg td [0..<test_batch] g0 [] [] = (Inr (gs, rs), gevs)"
    and res: "Inr report = fst (evaluate_texts env gs rs)"
    and evs: "evs = gevs @ snd (evaluate_texts env gs rs)"
    by auto
  from collect_texts_batch [OF td] have "length td = 10" by blast
  from generate_pairs_batch [OF gp this] have len: "length gevs = 10" by blast
  from res have "evaluate_texts env gs rs = (Inr report, snd (evaluate_texts env gs rs))"
    by (simp add: prod_eq_iff)
  from this [unfolded evaluate_texts_Inr] len evs show ?thesis
    by (auto simp: evaluate_texts_Inr nth_append)
qed

subsection \<open>The concrete runs\<close>

lemmas run_simps = main_def table_env_def dataset_of_def train_rows_def load_data_def
  range_test_batch slice_to_def evaluate_texts_def exact_matches_def Let_def

lemma demo_run:
  "main demo_env config4 =
     (Inr [''bleu'' \<mapsto> 4, ''rouge'' \<mapsto> 4],
      [Generate ''once'' 9 (7 / 10) 50 (Inr ''once!!''),
       Generate ''a ti'' 6 (7 / 10) 50 (Inr ''a ti!!''),
       Generate ''ther'' 5 (7 / 10) 50 (Inr ''ther!!''),
       Generate ''was'' 3 (7 / 10) 50 (Inr ''was!!''),
       Generate ''a'' 1 (7 / 10) 50 (Inr ''a!!''),
       Generate ''smal'' 5 (7 / 10) 50 (Inr ''smal!!''),
       Generate ''mode'' 5 (7 / 10) 50 (Inr ''mode!!''),
       Generate ''that'' 4 (7 / 10) 50 (Inr ''that!!''),
       Generate ''wrot'' 5 (7 / 10) 50 (Inr ''wrot!!''),
       Generate ''text'' 4 (7 / 10) 50 (Inr ''text!!''),
       Compute ''bleu''
         [''once!!'', ''a ti!!'', ''ther!'', ''was'', ''a'', ''smal!'', ''mode!'', ''that'',
          ''wrot!'', ''text'']
         [''once u'', ''a time'', ''there'', ''was'', ''a'', ''small'', ''model'', ''that'',
          ''wrote'', ''text'']
         (Inr 4),
       Compute ''rouge''
         [''once!!'', ''a ti!!'', ''ther!'', ''was'', ''a'', ''smal!'', ''mode!'', ''that'',
          ''wrot!'', ''text'']
         [''once u'', ''a time'', ''there'', ''was'', ''a'', ''small'', ''model'', ''that'',
          ''wrote'', ''text'']
         (Inr 4)])"
  by (simp add: run_simps demo_env_def demo_texts_def config4_def)

lemma fox_run:
  "main fox_env config16 =
     (Inr [''bleu'' \<mapsto> 10, ''rouge'' \<mapsto> 10],
      replicate 10 (Generate ''the quick brown '' 25 (7 / 10) 50 (Inr ''the quick brown'')) @
      [Compute ''bleu'' (replicate 10 ''the quick brown'') (replicate 10 ''the quick brown'')
         (Inr 10),
       Compute ''rouge'' (replicate 10 ''the quick brown'') (replicate 10 ''the quick brown'')
         (Inr 10)])"
  by (simp add: run_simps fox_env_def fox_texts_def config16_def numeral_eq_Suc)

lemma short_run: "main short_env config4 = (Inl IndexError, [])"
  by (simp add: run_simps short_env_def demo_texts_def config4_def)

lemma demo_run16:
  "main demo_env config16 =
     (Inr [''bleu'' \<mapsto> 10, ''rouge'' \<mapsto> 10],
      [Generate ''once upon'' 9 (7 / 10) 50 (Inr ''once upon!!''),
       Generate ''a time'' 6 (7 / 10) 50 (Inr ''a time!!''),
       Generate ''there'' 5 (7 / 10) 50 (Inr ''there!!''),
       Generate ''was'' 3 (7 / 10) 50 (Inr ''was!!''),
       Generate ''a'' 1 (7 / 10) 50 (Inr ''a!!''),
       Generate ''small'' 5 (7 / 10) 50 (Inr ''small!!''),
       Generate ''model'' 5 (7 / 10) 50 (Inr ''model!!''),
       Generate ''that'' 4 (7 / 10) 50 (Inr ''that!!''),
       Generate ''wrote'' 5 (7 / 10) 50 (Inr ''wrote!!''),
       Generate ''text'' 4 (7 / 10) 50 (Inr ''text!!''),
       Compute ''bleu'' demo_texts demo_texts (Inr 10),
       Compute ''rouge'' demo_texts demo_texts (Inr 10)])"
  by (simp add: run_simps demo_env_def demo_texts_def config16_def)


lemma demo_data:
  "load_dataset demo_env (DATASET_PATH cfg) = Inr (dataset_of demo_texts)"
  "dataset_of demo_texts ''train'' = Some (train_rows demo_texts)"
  by (simp_all add: demo_env_def table_env_def dataset_of_def)

lemma fox_data:
  "load_dataset fox_env (DATASET_PATH cfg) = Inr (dataset_of fox_texts)"
  "dataset_of fox_texts ''train'' = Some (train_rows fox_texts)"
  by (simp_all add: fox_env_def table_env_def dataset_of_def)

lemma short_data:
  "load_dataset short_env (DATASET_PATH cfg) = Inr (dataset_of (take 3 demo_texts))"
  "dataset_of (take 3 demo_texts) ''train'' = Some (train_rows (take 3 demo_texts))"
  by (simp_all add: short_env_def table_env_def dataset_of_def)


lemma demo_run_neg:
  "snd (main demo_env config_neg) ! 0 = Generate ''once upo'' 9 (7 / 10) 50 (Inr ''once upo!!'')"
  by (simp add: run_simps demo_env_def demo_texts_def config4_def config_neg_def)

lemma main_split: "main env cfg = (fst (main env cfg), snd (main env cfg))"
  by simp

lemma demo_scorer:
  "snd (main demo_env config4) ! 10 \<in> set (snd (main demo_env config4))"
  "is_Compute (snd (main demo_env config4) ! 10)"
  by (simp_all add: demo_run)

lemma fox_scorer:
  "snd (main fox_env config16) ! 10 \<in> set (snd (main fox_env config16))"
  "is_Compute (snd (main fox_env config16) ! 10)"
  by (simp_all add: fox_run numeral_eq_Suc)


text \<open>
  A tokenizer for which every slice \<open>r[:n]\<close> has at most \<open>n\<close> tokens, and is the whole of
  \<open>r\<close> whenever \<open>r\<close> has fewer than \<open>n\<close> tokens, gives every text at most one character
  more than it gives it tokens.
\<close>

lemma token_prompt_needs_char_tokens:
  assumes "\<And>(n::nat) r. length (tok (slice_to r (int n))) \<le> n \<and>
                (length (tok r) < n \<longrightarrow> slice_to r (int n) = r)"
  shows "length r \<le> Suc (length (tok r))"
proof -
  from assms [of r "Suc (length (tok r))", unfolded slice_to_int]
  have "take (Suc (length (tok r))) r = r" by simp
  then have "length (take (Suc (length (tok r))) r) = length r" by simp
  then show ?thesis by simp
qed


section \<open>The claims\<close>

text \<open>
  Claim C1. In every run that calls a scorer, the entries for sample \<open>i\<close> in the two lists
  the scorer receives are the generated text \<open>g\<close> of the \<open>i\<close>-th generator call (the call
  made for the \<open>i\<close>-th record) and the \<open>i\<close>-th record \<open>r\<close> of the train split, both cut to
  their first \<open>n\<close> characters, \<open>n = min (length g) (length r)\<close>; both entries have length
  exactly \<open>n\<close>.
\<close>

theorem alignment_to_shorter:
  assumes "main env cfg = (res, evs)"
    and "e \<in> set evs" and "is_Compute e"
    and "i < test_batch"
    and "load_dataset env (DATASET_PATH cfg) = Inr ds" and "ds ''train'' = Some train"
    and "(train ! i) ''text'' = Some r"
  shows "\<exists>g. generated (evs ! i) = Inr g \<and>
     prompt (evs ! i) = slice_to r (CONTEXT_LENGTH cfg) \<and> max_tokens (evs ! i) = length r \<and>
     predictions e ! i = take (min (length g) (length r)) g \<and>
     references e ! i = take (min (length g) (length r)) r \<and>
     length (predictions e ! i) = min (length g) (length r) \<and>
     length (references e ! i) = min (length g) (length r)"
proof -
  from main_scoring [OF assms(1-3)] assms(5,6) obtain outs where
    "\<forall>i<10. \<exists>rec. (train ! i) ''text'' = Some rec \<and>
        evs ! i = Generate (slice_to rec (CONTEXT_LENGTH cfg)) (length rec) (7 / 10) 50
                     (Inr (outs ! i)) \<and>
        predictions e ! i = take (min (length (outs ! i)) (length rec)) (outs ! i) \<and>
        references e ! i = take (min (length (outs ! i)) (length rec)) rec"
    by fastforce
  with assms(4,7) have "evs ! i = Generate (slice_to r (CONTEXT_LENGTH cfg)) (length r) (7 / 10) 50
                     (Inr (outs ! i)) \<and>
        predictions e ! i = take (min (length (outs ! i)) (length r)) (outs ! i) \<and>
        references e ! i = take (min (length (outs ! i)) (length r)) r"
    by (fastforce simp: test_batch_def)
  then show ?thesis by (intro exI [of _ "outs ! i"]) simp
qed

text \<open>
  The run of \<open>demo_env\<close>: the first record is \<^verbatim>\<open>once upon\<close>, the generator returns
  \<^verbatim>\<open>once!!\<close>, and both entries of the first pair have length 6.
\<close>

theorem alignment_to_shorter_witness:
  "generated (snd (main demo_env config4) ! 0) = Inr ''once!!'' \<and>
   predictions (snd (main demo_env config4) ! 10) ! 0 = ''once!!'' \<and>
   references (snd (main demo_env config4) ! 10) ! 0 = ''once u'' \<and>
   length (predictions (snd (main demo_env config4) ! 10) ! 0) = min 6 9 \<and>
   length (references (snd (main demo_env config4) ! 10) ! 0) = min 6 9"
proof -
  have i: "0 < test_batch" by (simp add: test_batch_def)
  have r: "(train_rows demo_texts ! 0) ''text'' = Some ''once upon''"
    by (simp add: train_rows_def demo_texts_def)
  from alignment_to_shorter [OF main_split demo_scorer i demo_data r] obtain g where
    g: "generated (snd (main demo_env config4) ! 0) = Inr g"
    and a: "predictions (snd (main demo_env config4) ! 10) ! 0 =
        take (min (length g) (length ''once upon'')) g"
      "references (snd (main demo_env config4) ! 10) ! 0 =
        take (min (length g) (length ''once upon'')) ''once upon''"
      "length (predictions (snd (main demo_env config4) ! 10) ! 0) =
        min (length g) (length ''once upon'')"
      "length (references (snd (main demo_env config4) ! 10) ! 0) =
        min (length g) (length ''once upon'')"
    by blast
  have "generated (snd (main demo_env config4) ! 0) = Inr ''once!!''"
    by (simp add: demo_run)
  with g have "g = ''once!!''" by simp
  with g a show ?thesis by simp
qed

text \<open>
  Claim C2, as amended. When the \<open>i\<close>-th record is the reference text
  \<^verbatim>\<open>the quick brown fox jumps\<close>, which has 25 characters, and the \<open>i\<close>-th generator call
  returns \<^verbatim>\<open>the quick brown\<close>, which has 15, the entries for sample \<open>i\<close> in the lists
  every scorer receives are \<^verbatim>\<open>the quick brown\<close> and \<^verbatim>\<open>the quick brown\<close>, both of
  length 15: the scorer receives the aligned pair, not the original strings.
\<close>

theorem worked_example_alignment:
  assumes "main env cfg = (res, evs)"
    and "e \<in> set evs" and "is_Compute e"
    and "i < test_batch"
    and "load_dataset env (DATASET_PATH cfg) = Inr ds" and "ds ''train'' = Some train"
    and "(train ! i) ''text'' = Some ''the quick brown fox jumps''"
    and "generated (evs ! i) = Inr ''the quick brown''"
  shows "predictions e ! i = ''the quick brown'' \<and> references e ! i = ''the quick brown'' \<and>
     length (predictions e ! i) = 15 \<and> length (references e ! i) = 15 \<and>
     length ''the quick brown fox jumps'' = 25"
proof -
  from main_scoring [OF assms(1-3)] obtain ds' train' outs where h:
    "load_dataset env (DATASET_PATH cfg) = Inr ds'" "ds' ''train'' = Some train'"
    "\<forall>i<10. \<exists>rec. (train' ! i) ''text'' = Some rec \<and>
        evs ! i = Generate (slice_to rec (CONTEXT_LENGTH cfg)) (length rec) (7 / 10) 50
                     (Inr (outs ! i)) \<and>
        predictions e ! i = take (min (length (outs ! i)) (length rec)) (outs ! i) \<and>
        references e ! i = take (min (length (outs ! i)) (length rec)) rec"
    by blast
  from h(1,2) assms(5,6) have "train' = train" by simp
  with h(3) assms(4,7) have
    "evs ! i = Generate (slice_to ''the quick brown fox jumps'' (CONTEXT_LENGTH cfg))
       (length ''the quick brown fox jumps'') (7 / 10) 50 (Inr (outs ! i)) \<and>
     predictions e ! i =
       take (min (length (outs ! i)) (length ''the quick brown fox jumps'')) (outs ! i) \<and>
     references e ! i =
       take (min (length (outs ! i)) (length ''the quick brown fox jumps''))
         ''the quick brown fox jumps''"
    by (fastforce simp: test_batch_def)
  with assms(8) show ?thesis by simp
qed

text \<open>
  The run of \<open>fox_env\<close>, whose records and generator are those of the worked example.
\<close>

theorem worked_example_alignment_witness:
  "predictions (snd (main fox_env config16) ! 10) ! 0 = ''the quick brown'' \<and>
   references (snd (main fox_env config16) ! 10) ! 0 = ''the quick brown'' \<and>
   length (predictions (snd (main fox_env config16) ! 10) ! 0) = 15 \<and>
   length (references (snd (main fox_env config16) ! 10) ! 0) = 15 \<and>
   length ''the quick brown fox jumps'' = 25"
proof -
  have i: "0 < test_batch" by (simp add: test_batch_def)
  have r: "(train_rows fox_texts ! 0) ''text'' = Some ''the quick brown fox jumps''"
    by (simp add: train_rows_def fox_texts_def numeral_eq_Suc)
  have g: "generated (snd (main fox_env config16) ! 0) = Inr ''the quick brown''"
    by (simp add: fox_run numeral_eq_Suc)
  show ?thesis
    by (rule worked_example_alignment [OF main_split fox_scorer i fox_data r g])
qed

text \<open>
  The worked example as the specification states it does not hold on that run: the
  aligned reference is \<^verbatim>\<open>the quick brown\<close>, not \<^verbatim>\<open>the quick \<close>, which has 10
  characters and not 15, and the reference text has 25 characters, not 27.
\<close>

theorem worked_example_counterexample:
  "generated (snd (main fox_env config16) ! 0) = Inr ''the quick brown'' \<and>
   predictions (snd (main fox_env config16) ! 10) ! 0 = ''the quick brown'' \<and>
   references (snd (main fox_env config16) ! 10) ! 0 = ''the quick brown'' \<and>
   references (snd (main fox_env config16) ! 10) ! 0 \<noteq> ''the quick '' \<and>
   length ''the quick '' \<noteq> 15 \<and>
   length ''the quick brown fox jumps'' \<noteq> 27"
  by (simp add: fox_run numeral_eq_Suc)

text \<open>
  Claim C3. In every run of \<^verbatim>\<open>main\<close> that returns a report, the ten generator calls are
  followed by exactly two scorer calls, BLEU and then ROUGE, and nothing else. Both calls
  receive the same two lists: the candidate list \<open>P\<close>, whose \<open>i\<close>-th entry is the text the
  \<open>i\<close>-th generator call returned for the \<open>i\<close>-th record of the train split, cut to the common
  length, and the reference list \<open>R\<close>, whose \<open>i\<close>-th entry is that record cut to the common
  length; each list has all \<open>test_batch\<close> entries. The report is the dictionary with the keys
  \<^verbatim>\<open>bleu\<close> and \<^verbatim>\<open>rouge\<close> and no other, holding what the two calls returned on these
  lists.
\<close>

theorem corpus_level_scoring:
  assumes "main env cfg = (Inr report, evs)"
  shows "\<exists>ds train P R b r.
     load_dataset env (DATASET_PATH cfg) = Inr ds \<and> ds ''train'' = Some train \<and>
     length P = test_batch \<and> length R = test_batch \<and>
     (\<forall>i<test_batch. \<exists>g rec. (train ! i) ''text'' = Some rec \<and>
        evs ! i = Generate (slice_to rec (CONTEXT_LENGTH cfg)) (length rec) (7 / 10) 50 (Inr g) \<and>
        P ! i = take (min (length g) (length rec)) g \<and>
        R ! i = take (min (length g) (length rec)) rec) \<and>
     length evs = test_batch + 2 \<and>
     drop test_batch evs = [Compute ''bleu'' P R (Inr b), Compute ''rouge'' P R (Inr r)] \<and>
     metric_compute env ''bleu'' P R = Inr b \<and> metric_compute env ''rouge'' P R = Inr r \<and>
     report = [''bleu'' \<mapsto> b, ''rouge'' \<mapsto> r] \<and> dom report = {''bleu'', ''rouge''}"
proof -
  from main_Inr [OF assms] obtain P R b r where h:
    "evaluate_texts env P R = (Inr report, drop 10 evs)"
    "drop 10 evs = [Compute ''bleu'' P R (Inr b), Compute ''rouge'' P R (Inr r)]"
    "report = [''bleu'' \<mapsto> b, ''rouge'' \<mapsto> r]" "evs ! 10 \<in> set evs" "10 < length evs"
    by blast
  from h(2,5) have e10: "evs ! 10 = Compute ''bleu'' P R (Inr b)"
    by (metis Cons_nth_drop_Suc list.inject)
  then have c10: "is_Compute (evs ! 10)" by simp
  from main_scoring [OF assms h(4) c10] obtain ds train outs P' R' where m:
    "load_dataset env (DATASET_PATH cfg) = Inr ds" "ds ''train'' = Some train"
    "length P' = 10" "length R' = 10"
    "predictions (evs ! 10) = P'" "references (evs ! 10) = R'"
    "\<forall>i<10. \<exists>rec. (train ! i) ''text'' = Some rec \<and>
        evs ! i = Generate (slice_to rec (CONTEXT_LENGTH cfg)) (length rec) (7 / 10) 50
                     (Inr (outs ! i)) \<and>
        P' ! i = take (min (length (outs ! i)) (length rec)) (outs ! i) \<and>
        R' ! i = take (min (length (outs ! i)) (length rec)) rec"
    by blast
  from m(5,6) e10 have eq: "P' = P" "R' = R" by simp_all
  have per: "\<forall>i<10. \<exists>g rec. (train ! i) ''text'' = Some rec \<and>
        evs ! i = Generate (slice_to rec (CONTEXT_LENGTH cfg)) (length rec) (7 / 10) 50 (Inr g) \<and>
        P ! i = take (min (length g) (length rec)) g \<and>
        R ! i = take (min (length g) (length rec)) rec"
    using m(7) unfolding eq by blast
  from h(2) have "length (drop 10 evs) = 2" by simp
  with h(5) have l: "length evs = 12" by simp
  from h(1) have sc: "metric_compute env ''bleu'' P R = Inr b"
    "metric_compute env ''rouge'' P R = Inr r"
    unfolding evaluate_texts_Inr h(2) by auto
  have d: "dom report = {''bleu'', ''rouge''}" using h(3) by auto
  show ?thesis
    apply (rule exI [of _ ds], rule exI [of _ train], rule exI [of _ P], rule exI [of _ R])
    apply (rule exI [of _ b], rule exI [of _ r])
    using m(1-4) eq per l h(2,3) sc d
    apply (simp add: test_batch_def)
    done
qed

text \<open>
  The run of \<open>demo_env\<close>, which returns a report.
\<close>

theorem corpus_level_scoring_witness:
  "\<exists>ds train P R b r.
     load_dataset demo_env (DATASET_PATH config4) = Inr ds \<and> ds ''train'' = Some train \<and>
     length P = test_batch \<and> length R = test_batch \<and>
     (\<forall>i<test_batch. \<exists>g rec. (train ! i) ''text'' = Some rec \<and>
        snd (main demo_env config4) ! i =
          Generate (slice_to rec (CONTEXT_LENGTH config4)) (length rec) (7 / 10) 50 (Inr g) \<and>
        P ! i = take (min (length g) (length rec)) g \<and>
        R ! i = take (min (length g) (length rec)) rec) \<and>
     length (snd (main demo_env config4)) = test_batch + 2 \<and>
     drop test_batch (snd (main demo_env config4)) =
       [Compute ''bleu'' P R (Inr b), Compute ''rouge'' P R (Inr r)] \<and>
     metric_compute demo_env ''bleu'' P R = Inr b \<and>
     metric_compute demo_env ''rouge'' P R = Inr r \<and>
     [''bleu'' \<mapsto> 4, ''rouge'' \<mapsto> 4] = [''bleu'' \<mapsto> b, ''rouge'' \<mapsto> r] \<and>
     dom [''bleu'' \<mapsto> 4 :: int, ''rouge'' \<mapsto> 4] = {''bleu'', ''rouge''}"
proof -
  have "main demo_env config4 = (Inr [''bleu'' \<mapsto> 4, ''rouge'' \<mapsto> 4], snd (main demo_env config4))"
    by (simp add: demo_run)
  then show ?thesis by (rule corpus_level_scoring)
qed

text \<open>
  Claim C4, as amended. \<^verbatim>\<open>evaluate_texts\<close> has no check for an empty batch and no error
  of its own. On two empty lists it calls the BLEU scorer and then the ROUGE scorer on the
  empty lists: either both return and it returns the report of their two results, or it
  raises what one of the scorers raised.
\<close>

theorem evaluate_texts_empty_batch:
  "(\<exists>b r. metric_compute env ''bleu'' [] [] = Inr b \<and> metric_compute env ''rouge'' [] [] = Inr r \<and>
      evaluate_texts env [] [] =
        (Inr [''bleu'' \<mapsto> b, ''rouge'' \<mapsto> r],
         [Compute ''bleu'' [] [] (Inr b), Compute ''rouge'' [] [] (Inr r)])) \<or>
   (\<exists>x. fst (evaluate_texts env [] []) = Inl (Raised x) \<and>
      (metric_compute env ''bleu'' [] [] = Inl x \<or> metric_compute env ''rouge'' [] [] = Inl x))"
  by (auto simp: evaluate_texts_def Let_def split: sum.splits)

text \<open>
  With scorers that return on empty lists, the empty batch gives a report and no error.
\<close>

theorem empty_batch_counterexample:
  "evaluate_texts demo_env [] [] =
     (Inr [''bleu'' \<mapsto> 0, ''rouge'' \<mapsto> 0],
      [Compute ''bleu'' [] [] (Inr 0), Compute ''rouge'' [] [] (Inr 0)])"
  by (simp add: evaluate_texts_def demo_env_def table_env_def exact_matches_def Let_def)


text \<open>
  Claim C5, as amended. For a non-negative \<^verbatim>\<open>CONTEXT_LENGTH\<close>, the prompt of every
  generator call is the first \<^verbatim>\<open>CONTEXT_LENGTH\<close> characters of the record of its sample:
  it has at most \<^verbatim>\<open>CONTEXT_LENGTH\<close> characters, and it is the whole record when the
  record has at most \<^verbatim>\<open>CONTEXT_LENGTH\<close> characters. The slice of line 88 counts
  characters, not tokens.
\<close>

theorem prompt_is_character_prefix:
  assumes "main env cfg = (res, evs)"
    and "k < length evs" and "is_Generate (evs ! k)"
    and "load_dataset env (DATASET_PATH cfg) = Inr ds" and "ds ''train'' = Some train"
    and "(train ! k) ''text'' = Some r"
    and "0 \<le> CONTEXT_LENGTH cfg"
  shows "prompt (evs ! k) = take (nat (CONTEXT_LENGTH cfg)) r \<and>
     int (length (prompt (evs ! k))) \<le> CONTEXT_LENGTH cfg \<and>
     (int (length r) \<le> CONTEXT_LENGTH cfg \<longrightarrow> prompt (evs ! k) = r)"
proof -
  from main_generate [OF assms(1-3)] assms(4-6)
  have "\<exists>out. evs ! k = Generate (slice_to r (CONTEXT_LENGTH cfg)) (length r) (7 / 10) 50 out"
    by auto
  then have "prompt (evs ! k) = slice_to r (CONTEXT_LENGTH cfg)" by auto
  with assms(7) show ?thesis by (auto simp: slice_to_def)
qed

text \<open>
  The run of \<open>demo_env\<close> with context length 4: the record \<^verbatim>\<open>once upon\<close> is cut to its
  first four characters, the record \<^verbatim>\<open>a\<close> is handed over whole.
\<close>

theorem prompt_is_character_prefix_witness:
  "prompt (snd (main demo_env config4) ! 0) = take (nat (CONTEXT_LENGTH config4)) ''once upon'' \<and>
   int (length (prompt (snd (main demo_env config4) ! 0))) \<le> CONTEXT_LENGTH config4 \<and>
   prompt (snd (main demo_env config4) ! 4) = ''a''"
proof -
  have k: "0 < length (snd (main demo_env config4))" "is_Generate (snd (main demo_env config4) ! 0)"
    "4 < length (snd (main demo_env config4))" "is_Generate (snd (main demo_env config4) ! 4)"
    by (simp_all add: demo_run)
  have r: "(train_rows demo_texts ! 0) ''text'' = Some ''once upon''"
    "(train_rows demo_texts ! 4) ''text'' = Some ''a''"
    by (simp_all add: train_rows_def demo_texts_def)
  have c: "0 \<le> CONTEXT_LENGTH config4" "int (length ''a'') \<le> CONTEXT_LENGTH config4"
    by (simp_all add: config4_def)
  from prompt_is_character_prefix [OF main_split k(1,2) demo_data r(1) c(1)]
    prompt_is_character_prefix [OF main_split k(3,4) demo_data r(2) c(1)] c(2)
  show ?thesis by blast
qed

text \<open>
  Counted in tokens, the claim fails. With context length 16 the record
  \<^verbatim>\<open>the quick brown fox jumps\<close> has five word tokens, fewer than 16, and is still cut to
  its first 16 characters. With context length \<open>- 1\<close> the slice drops the last character
  only, and the prompt is longer than the context length in any unit.
\<close>

theorem prompt_tokens_counterexample:
  "CONTEXT_LENGTH config16 = 16 \<and>
   prompt (snd (main fox_env config16) ! 0) = ''the quick brown '' \<and>
   word_tokens ''the quick brown fox jumps'' = [''the'', ''quick'', ''brown'', ''fox'', ''jumps''] \<and>
   int (length (word_tokens ''the quick brown fox jumps'')) < CONTEXT_LENGTH config16 \<and>
   prompt (snd (main fox_env config16) ! 0) \<noteq> ''the quick brown fox jumps'' \<and>
   CONTEXT_LENGTH config_neg = - 1 \<and>
   prompt (snd (main demo_env config_neg) ! 0) = ''once upo'' \<and>
   \<not> int (length (prompt (snd (main demo_env config_neg) ! 0))) \<le> CONTEXT_LENGTH config_neg"
proof -
  have "CONTEXT_LENGTH config16 = 16" "CONTEXT_LENGTH config_neg = - 1"
    by (simp_all add: config16_def config_neg_def)
  moreover have "prompt (snd (main fox_env config16) ! 0) = ''the quick brown ''"
    by (simp add: fox_run numeral_eq_Suc)
  moreover have "word_tokens ''the quick brown fox jumps'' =
      [''the'', ''quick'', ''brown'', ''fox'', ''jumps'']"
    by (simp add: word_tokens_def)
  moreover have "prompt (snd (main demo_env config_neg) ! 0) = ''once upo''"
    by (simp add: demo_run_neg)
  ultimately show ?thesis by simp
qed

text \<open>
  Claim C6, as amended. Every generator call of every run is made with the temperature
  0.7 and the \<^verbatim>\<open>top_k\<close> 50, the literals of line 89, and with \<^verbatim>\<open>max_tokens\<close> the number
  of characters of the record of its sample. None of the three is read from
  \<^verbatim>\<open>ModelConfig\<close>; the harness passes them to the generator as arguments.
\<close>

theorem generation_parameters_fixed:
  assumes "main env cfg = (res, evs)"
    and "k < length evs" and "is_Generate (evs ! k)"
    and "load_dataset env (DATASET_PATH cfg) = Inr ds" and "ds ''train'' = Some train"
    and "(train ! k) ''text'' = Some r"
  shows "temperature (evs ! k) = 7 / 10 \<and> top_k (evs ! k) = 50 \<and> max_tokens (evs ! k) = length r"
proof -
  from main_generate [OF assms(1-3)] assms(4-6)
  have "\<exists>out. evs ! k = Generate (slice_to r (CONTEXT_LENGTH cfg)) (length r) (7 / 10) 50 out"
    by auto
  then show ?thesis by auto
qed

text \<open>
  The first generator call of the run of \<open>demo_env\<close>.
\<close>

theorem generation_parameters_fixed_witness:
  "temperature (snd (main demo_env config4) ! 0) = 7 / 10 \<and>
   top_k (snd (main demo_env config4) ! 0) = 50 \<and>
   max_tokens (snd (main demo_env config4) ! 0) = length ''once upon''"
proof -
  have k: "0 < length (snd (main demo_env config4))" "is_Generate (snd (main demo_env config4) ! 0)"
    by (simp_all add: demo_run)
  have r: "(train_rows demo_texts ! 0) ''text'' = Some ''once upon''"
    by (simp add: train_rows_def demo_texts_def)
  show ?thesis
    by (rule generation_parameters_fixed [OF main_split k demo_data r])
qed

text \<open>
  The three parameters are not taken from the configuration: two configurations that
  differ in every field give the same parameters in all ten calls, namely the length of
  the record, 0.7 and 50.
\<close>

theorem generation_parameters_counterexample:
  "map (\<lambda>e. (max_tokens e, temperature e, top_k e)) (take 10 (snd (main demo_env config4))) =
     map (\<lambda>r. (length r, 7 / 10, 50)) demo_texts \<and>
   map (\<lambda>e. (max_tokens e, temperature e, top_k e)) (take 10 (snd (main demo_env config16))) =
     map (\<lambda>r. (length r, 7 / 10, 50)) demo_texts \<and>
   CONTEXT_LENGTH config4 \<noteq> CONTEXT_LENGTH config16 \<and> D_MODEL config4 \<noteq> D_MODEL config16 \<and>
   D_FF config4 \<noteq> D_FF config16 \<and> NUM_BLOCKS config4 \<noteq> NUM_BLOCKS config16 \<and>
   NUM_HEADS config4 \<noteq> NUM_HEADS config16 \<and> DROP_OUT config4 \<noteq> DROP_OUT config16 \<and>
   MODEL_PATH config4 \<noteq> MODEL_PATH config16 \<and> DATASET_PATH config4 \<noteq> DATASET_PATH config16 \<and>
   DEVICE config4 \<noteq> DEVICE config16"
proof -
  have "map (\<lambda>e. (max_tokens e, temperature e, top_k e)) (take 10 (snd (main demo_env config4))) =
     map (\<lambda>r. (length r, 7 / 10, 50)) demo_texts"
    by (simp add: demo_run demo_texts_def)
  moreover have
    "map (\<lambda>e. (max_tokens e, temperature e, top_k e)) (take 10 (snd (main demo_env config16))) =
     map (\<lambda>r. (length r, 7 / 10, 50)) demo_texts"
    by (simp add: demo_run16 demo_texts_def)
  ultimately show ?thesis by (simp add: config4_def config16_def)
qed


text \<open>
  Claim C7. In every run that reaches a generator or scorer call, the batch
  \<^verbatim>\<open>test_datasets\<close> built by lines 74 to 77 consists of the texts of the first
  \<open>test_batch\<close> rows of the train split, in their order, and the \<open>k\<close>-th generator call
  is the one for the \<open>k\<close>-th entry of the batch.
\<close>

theorem batch_is_first_records:
  assumes "main env cfg = (res, evs)" and "evs \<noteq> []"
    and "load_dataset env (DATASET_PATH cfg) = Inr ds" and "ds ''train'' = Some train"
  shows "\<exists>td. collect_texts ds [0..<test_batch] [] = Inr td \<and>
     length td = test_batch \<and> test_batch \<le> length train \<and>
     map Some td = map (\<lambda>row. row ''text'') (take test_batch train) \<and>
     (\<forall>k<length evs. is_Generate (evs ! k) \<longrightarrow>
        k < test_batch \<and> prompt (evs ! k) = slice_to (td ! k) (CONTEXT_LENGTH cfg) \<and>
        max_tokens (evs ! k) = length (td ! k))"
proof -
  from main_cases [OF assms(1)] assms(2,3) obtain td where
    td: "collect_texts ds [0..<test_batch] [] = Inr td"
    by auto
  from collect_texts_batch [OF td] assms(4) have
    tr: "10 \<le> length train" "length td = 10" "\<forall>i<10. (train ! i) ''text'' = Some (td ! i)"
    by auto
  have "map Some td = map (\<lambda>row. row ''text'') (take 10 train)"
    using tr by (auto simp: list_eq_iff_nth_eq)
  moreover have "\<forall>k<length evs. is_Generate (evs ! k) \<longrightarrow>
        k < 10 \<and> prompt (evs ! k) = slice_to (td ! k) (CONTEXT_LENGTH cfg) \<and>
        max_tokens (evs ! k) = length (td ! k)"
  proof (intro allI impI)
    fix k assume k: "k < length evs" "is_Generate (evs ! k)"
    from main_generate [OF assms(1) k] assms(3,4) obtain r out where
      "k < 10" "(train ! k) ''text'' = Some r"
      "evs ! k = Generate (slice_to r (CONTEXT_LENGTH cfg)) (length r) (7 / 10) 50 out"
      by auto
    with tr(3) show "k < 10 \<and> prompt (evs ! k) = slice_to (td ! k) (CONTEXT_LENGTH cfg) \<and>
        max_tokens (evs ! k) = length (td ! k)"
      by auto
  qed
  ultimately show ?thesis using td tr(1,2) by (auto simp: test_batch_def)
qed

text \<open>
  The run of \<open>demo_env\<close>.
\<close>

theorem batch_is_first_records_witness:
  "\<exists>td. collect_texts (dataset_of demo_texts) [0..<test_batch] [] = Inr td \<and>
     length td = test_batch \<and> test_batch \<le> length (train_rows demo_texts) \<and>
     map Some td = map (\<lambda>row. row ''text'') (take test_batch (train_rows demo_texts)) \<and>
     (\<forall>k<length (snd (main demo_env config4)). is_Generate (snd (main demo_env config4) ! k) \<longrightarrow>
        k < test_batch \<and>
        prompt (snd (main demo_env config4) ! k) = slice_to (td ! k) (CONTEXT_LENGTH config4) \<and>
        max_tokens (snd (main demo_env config4) ! k) = length (td ! k))"
proof -
  have ne: "snd (main demo_env config4) \<noteq> []" by (simp add: demo_run)
  show ?thesis
    by (rule batch_is_first_records [OF main_split ne demo_data])
qed



text \<open>
  Claim C9. In every run that calls a scorer, the two lists the scorer receives have
  \<open>test_batch\<close> entries each; the \<open>i\<close>-th reference is a prefix of the \<open>i\<close>-th record of the
  train split, and the \<open>i\<close>-th prediction is a prefix of the text generated by the
  \<open>i\<close>-th generator call, the call whose prompt was cut from that record.
\<close>

theorem aligned_texts_are_prefixes:
  assumes "main env cfg = (res, evs)"
    and "e \<in> set evs" and "is_Compute e"
    and "i < test_batch"
    and "load_dataset env (DATASET_PATH cfg) = Inr ds" and "ds ''train'' = Some train"
    and "(train ! i) ''text'' = Some r"
  shows "length (predictions e) = test_batch \<and> length (references e) = test_batch \<and>
     prefix (references e ! i) r \<and>
     (\<exists>g. generated (evs ! i) = Inr g \<and> prompt (evs ! i) = slice_to r (CONTEXT_LENGTH cfg) \<and>
        prefix (predictions e ! i) g)"
proof -
  from main_scoring [OF assms(1-3)] obtain ds' train' outs where h:
    "load_dataset env (DATASET_PATH cfg) = Inr ds'" "ds' ''train'' = Some train'"
    "length (predictions e) = 10" "length (references e) = 10"
    "\<forall>i<10. \<exists>rec. (train' ! i) ''text'' = Some rec \<and>
        evs ! i = Generate (slice_to rec (CONTEXT_LENGTH cfg)) (length rec) (7 / 10) 50
                     (Inr (outs ! i)) \<and>
        predictions e ! i = take (min (length (outs ! i)) (length rec)) (outs ! i) \<and>
        references e ! i = take (min (length (outs ! i)) (length rec)) rec"
    by blast
  from h(1,2) assms(5,6) have "train' = train" by simp
  with h(5) assms(4,7) have
    "evs ! i = Generate (slice_to r (CONTEXT_LENGTH cfg)) (length r) (7 / 10) 50
       (Inr (outs ! i)) \<and>
     predictions e ! i = take (min (length (outs ! i)) (length r)) (outs ! i) \<and>
     references e ! i = take (min (length (outs ! i)) (length r)) r"
    by (fastforce simp: test_batch_def)
  with h(3,4) show ?thesis by (simp add: test_batch_def take_is_prefix)
qed

text \<open>
  The third sample of the run of \<open>demo_env\<close>.
\<close>

theorem aligned_texts_are_prefixes_witness:
  "length (predictions (snd (main demo_env config4) ! 10)) = test_batch \<and>
   length (references (snd (main demo_env config4) ! 10)) = test_batch \<and>
   prefix (references (snd (main demo_env config4) ! 10) ! 2) ''there'' \<and>
   (\<exists>g. generated (snd (main demo_env config4) ! 2) = Inr g \<and>
      prompt (snd (main demo_env config4) ! 2) = slice_to ''there'' (CONTEXT_LENGTH config4) \<and>
      prefix (predictions (snd (main demo_env config4) ! 10) ! 2) g)"
proof -
  have i: "2 < test_batch" by (simp add: test_batch_def)
  have r: "(train_rows demo_texts ! 2) ''text'' = Some ''there''"
    by (simp add: train_rows_def demo_texts_def)
  show ?thesis
    by (rule aligned_texts_are_prefixes [OF main_split demo_scorer i demo_data r])
qed

text \<open>
  Claim C10. Let the train split have the rows \<open>train\<close>. With at least \<open>test_batch\<close> rows,
  neither the construction of the batch nor the run of \<^verbatim>\<open>main\<close> raises
  \<^verbatim>\<open>IndexError\<close>: every index is in bounds. With fewer rows both fail, so \<^verbatim>\<open>main\<close>
  returns only under that precondition; and the construction of the batch fails with
  \<^verbatim>\<open>IndexError\<close> when every row has its \<^verbatim>\<open>text\<close> column.
\<close>

theorem index_error_iff_short_train:
  assumes "load_dataset env (DATASET_PATH cfg) = Inr ds" and "ds ''train'' = Some train"
  shows "(test_batch \<le> length train \<longrightarrow>
            fst (main env cfg) \<noteq> Inl IndexError \<and>
            collect_texts ds [0..<test_batch] [] \<noteq> Inl IndexError) \<and>
         (length train < test_batch \<longrightarrow>
            (\<exists>e. fst (main env cfg) = Inl e) \<and>
            (\<exists>e. collect_texts ds [0..<test_batch] [] = Inl e)) \<and>
         (length train < test_batch \<and> (\<forall>row\<in>set train. row ''text'' \<noteq> None) \<longrightarrow>
            collect_texts ds [0..<test_batch] [] = Inl IndexError)"
proof (intro conjI impI)
  assume "test_batch \<le> length train"
  then have ge: "10 \<le> length train" by (simp add: test_batch_def)
  show "fst (main env cfg) \<noteq> Inl IndexError"
  proof
    assume "fst (main env cfg) = Inl IndexError"
    from main_IndexError [OF this] assms ge show False by auto
  qed
  show "collect_texts ds [0..<test_batch] [] \<noteq> Inl IndexError"
  proof
    assume "collect_texts ds [0..<test_batch] [] = Inl IndexError"
    from collect_texts_IndexError [OF this] assms(2) ge show False
      by (auto simp: test_batch_def)
  qed
next
  assume "length train < test_batch"
  then have lt: "length train < 10" by (simp add: test_batch_def)
  have no: "collect_texts ds [0..<test_batch] [] \<noteq> Inr td" for td
  proof
    assume "collect_texts ds [0..<test_batch] [] = Inr td"
    from collect_texts_batch [OF this] assms(2) lt show False by auto
  qed
  then show "\<exists>e. collect_texts ds [0..<test_batch] [] = Inl e"
    by (cases "collect_texts ds [0..<test_batch] []") auto
  from main_cases [OF main_split [of env cfg]] assms(1) no
  show "\<exists>e. fst (main env cfg) = Inl e" by auto
next
  assume a: "length train < test_batch \<and> (\<forall>row\<in>set train. row ''text'' \<noteq> None)"
  then have "\<exists>i\<in>set [0..<test_batch]. length train \<le> i"
    by (intro bexI [of _ "length train"]) simp_all
  moreover from a have "\<forall>i\<in>set [0..<test_batch]. i < length train \<longrightarrow> (train ! i) ''text'' \<noteq> None"
    by simp
  ultimately show "collect_texts ds [0..<test_batch] [] = Inl IndexError"
    using assms(2) by (intro collect_texts_short)
qed

text \<open>
  The dataset of ten records and the dataset of three.
\<close>

theorem index_error_iff_short_train_witness:
  "fst (main demo_env config4) \<noteq> Inl IndexError \<and>
   collect_texts (dataset_of demo_texts) [0..<test_batch] [] \<noteq> Inl IndexError \<and>
   fst (main short_env config4) = Inl IndexError \<and>
   collect_texts (dataset_of (take 3 demo_texts)) [0..<test_batch] [] = Inl IndexError"
proof -
  have long: "test_batch \<le> length (train_rows demo_texts)"
    by (simp add: test_batch_def train_rows_def demo_texts_def)
  have short: "length (train_rows (take 3 demo_texts)) < test_batch \<and>
      (\<forall>row\<in>set (train_rows (take 3 demo_texts)). row ''text'' \<noteq> None)"
    by (simp add: test_batch_def train_rows_def demo_texts_def)
  from index_error_iff_short_train [OF demo_data, of config4] long
    index_error_iff_short_train [OF short_data, of config4] short
  show ?thesis by (simp add: short_run)
qed

end
